theory Spec2Isabelle
  imports Main
begin

unbundle bit_operations_syntax

section \<open>State variables of the trace automaton (linuxautomaton/sv.py)\<close>

text \<open>
  The module defines the state objects that the automaton keeps while it replays a kernel
  trace: file descriptors, interrupts, and I/O requests at the syscall and at the block
  level. Each Python class is a record, the class hierarchy is record extension, a method
  that mutates \<open>self\<close> returns the updated record, and a lookup that raises is a value
  of \<open>error + 'a\<close>. Python integers are unbounded, hence \<open>int\<close>; an attribute that may
  hold \<open>None\<close> is an \<open>option\<close>.
\<close>

subsection \<open>Errors and trace events\<close>

datatype error = KeyError string | AttributeError string

text \<open>
  A trace event has a timestamp, a name and named fields. The trace format types every
  field: the numeric fields are in \<open>int_fields\<close>, the string fields (\<open>filename\<close>)
  in \<open>str_fields\<close>. \<open>event[key]\<close> raises \<open>KeyError\<close> when the field is absent.
\<close>

record event =
  timestamp :: int
  name :: string
  int_fields :: "string \<rightharpoonup> int"
  str_fields :: "string \<rightharpoonup> string"

definition getitem :: "event \<Rightarrow> string \<Rightarrow> error + int" where
  "getitem ev k = (case int_fields ev k of None \<Rightarrow> Inl (KeyError k) | Some v \<Rightarrow> Inr v)"

definition getitem_str :: "event \<Rightarrow> string \<Rightarrow> error + string" where
  "getitem_str ev k = (case str_fields ev k of None \<Rightarrow> Inl (KeyError k) | Some v \<Rightarrow> Inr v)"

text \<open>Sequencing of statements that may raise: the first error ends the function.\<close>

definition and_then :: "error + 'a \<Rightarrow> ('a \<Rightarrow> error + 'b) \<Rightarrow> error + 'b" where
  "and_then m f = (case m of Inl err \<Rightarrow> Inl err | Inr v \<Rightarrow> f v)"

text \<open>
  The module \<open>linuxautomaton.common\<close> is imported by sv.py and is not among the sources.
  What sv.py uses of it, the helper \<open>get_syscall_name\<close> and the constant \<open>O_CLOEXEC\<close>,
  is a parameter of every function that needs it.
\<close>

record common =
  get_syscall_name :: "event \<Rightarrow> string"
  O_CLOEXEC :: int

subsection \<open>File descriptors\<close>

text \<open>Class \<open>FDType\<close>: \<open>unknown = 0\<close>, \<open>disk = 1\<close>, \<open>net = 2\<close>, \<open>maybe_net = 3\<close>.\<close>

datatype FDType = unknown | disk | net | maybe_net

text \<open>\<open>socket.AF_UNSPEC\<close> of the Python standard library.\<close>

definition AF_UNSPEC :: int where
  "AF_UNSPEC = 0"

text \<open>
  Class \<open>FD\<close>. The type parameter is the type of the request objects kept in
  \<open>iorequests\<close>. The attribute holding the type is called \<open>fdtype\<close>. The total
  \<open>write\<close> is spelt \<open>write'\<close>, as \<open>write\<close> is a keyword of Isabelle.
\<close>

record 'rq FD =
  filename :: string
  fd :: "int option"
  family :: int
  fdtype :: FDType
  parent :: "int option"
  cloexec :: bool
  net_read :: int
  net_write :: int
  disk_read :: int
  disk_write :: int
  unk_read :: int
  unk_write :: int
  read :: int
  write' :: int
  iorequests :: "'rq list"

definition init_counts :: "'rq FD \<Rightarrow> 'rq FD" where
  "init_counts self = self\<lparr>net_read := 0, net_write := 0, disk_read := 0, disk_write := 0,
     unk_read := 0, unk_write := 0, read := 0, write' := 0, iorequests := []\<rparr>"

text \<open>
  \<open>FD.__init__(self)\<close> assigns the six identity attributes and calls \<open>init_counts\<close>,
  which assigns the counters and the history. A Python object has no attribute until one is
  assigned, whereas a record has all its fields from the start. So \<open>self\<close>, the object as
  \<open>cls()\<close> allocates it before \<open>__init__\<close> runs, is an arbitrary record: what its
  fields hold means nothing, and every field of the initialised object is one that
  \<open>__init__\<close> or \<open>init_counts\<close> has assigned.
\<close>

definition FD_init :: "'rq FD \<Rightarrow> 'rq FD" where
  "FD_init self = init_counts (self\<lparr>filename := '''', fd := None, family := AF_UNSPEC,
     fdtype := unknown, parent := None, cloexec := False\<rparr>)"

text \<open>
  \<open>FD.new_from_fd(cls, fd)\<close>: \<open>new_fd = cls()\<close> allocates an object (\<open>fresh\<close>) and
  initialises it, then the six identity attributes of the source are assigned to it.
\<close>

definition new_from_fd :: "'rq FD \<Rightarrow> 'rq FD \<Rightarrow> 'rq FD" where
  "new_from_fd fresh old =
     (let new_fd = FD_init fresh
      in new_fd\<lparr>filename := filename old, fd := fd old, family := family old,
           fdtype := fdtype old, parent := parent old, cloexec := cloexec old\<rparr>)"

text \<open>
  Python objects have identity: \<open>cls()\<close> allocates a new object each time it runs. Where
  that matters the FD objects live in a store, a list whose indices are the references;
  allocation appends. \<open>new_from_fd_at\<close> is \<open>FD.new_from_fd\<close> on a reference: it reads
  the source object, allocates the duplicate and returns its reference.
\<close>

definition FD_alloc :: "'rq FD list \<Rightarrow> 'rq FD \<Rightarrow> nat \<times> 'rq FD list" where
  "FD_alloc store obj = (length store, store @ [obj])"

definition new_from_fd_at ::
  "'rq FD \<Rightarrow> 'rq FD list \<Rightarrow> nat \<Rightarrow> (nat \<times> 'rq FD list) option" where
  "new_from_fd_at fresh store ref =
     (if ref < length store then Some (FD_alloc store (new_from_fd fresh (store ! ref)))
      else None)"

subsection \<open>Interrupts\<close>

record IRQ =
  id' :: int
  cpu_id :: int
  begin_ts :: "int option"
  end_ts :: "int option"

record HardIRQ = IRQ +
  ret :: "int option"

record SoftIRQ = IRQ +
  raise_ts :: "int option"

definition IRQ_init :: "int \<Rightarrow> int \<Rightarrow> int option \<Rightarrow> IRQ" where
  "IRQ_init i c b = \<lparr>id' = i, cpu_id = c, begin_ts = b, end_ts = None\<rparr>"

definition HardIRQ_init :: "int \<Rightarrow> int \<Rightarrow> int \<Rightarrow> HardIRQ" where
  "HardIRQ_init i c b = IRQ.extend (IRQ_init i c (Some b)) (HardIRQ.fields None)"

definition new_from_irq_handler_entry :: "event \<Rightarrow> error + HardIRQ" where
  "new_from_irq_handler_entry ev =
     and_then (getitem ev ''irq'') (\<lambda>i.
     and_then (getitem ev ''cpu_id'') (\<lambda>c.
     Inr (HardIRQ_init i c (timestamp ev))))"

text \<open>\<open>SoftIRQ.__init__(self, id, cpu_id, raise_ts=None, begin_ts=None)\<close>.\<close>

definition SoftIRQ_init :: "int \<Rightarrow> int \<Rightarrow> int option \<Rightarrow> int option \<Rightarrow> SoftIRQ" where
  "SoftIRQ_init i c r b = IRQ.extend (IRQ_init i c b) (SoftIRQ.fields r)"

definition new_from_softirq_raise :: "event \<Rightarrow> error + SoftIRQ" where
  "new_from_softirq_raise ev =
     and_then (getitem ev ''vec'') (\<lambda>i.
     and_then (getitem ev ''cpu_id'') (\<lambda>c.
     Inr (SoftIRQ_init i c (Some (timestamp ev)) None)))"

definition new_from_softirq_entry :: "event \<Rightarrow> error + SoftIRQ" where
  "new_from_softirq_entry ev =
     and_then (getitem ev ''vec'') (\<lambda>i.
     and_then (getitem ev ''cpu_id'') (\<lambda>c.
     Inr (SoftIRQ_init i c None (Some (timestamp ev)))))"

text \<open>
  Class \<open>CPU\<close>. \<open>current_softirqs\<close> is a dict indexed by vector; each entry is a list,
  ordered chronologically.
\<close>

record CPU =
  cpu_id :: int
  current_tid :: "int option"
  current_hard_irq :: "HardIRQ option"
  current_softirqs :: "int \<rightharpoonup> SoftIRQ list"

definition CPU_init :: "int \<Rightarrow> CPU" where
  "CPU_init c = \<lparr>cpu_id = c, current_tid = None, current_hard_irq = None,
     current_softirqs = Map.empty\<rparr>"

subsection \<open>I/O requests\<close>

text \<open>
  The operations of class \<open>IORequest\<close>: \<open>OP_OPEN = 1\<close>, \<open>OP_READ = 2\<close>,
  \<open>OP_WRITE = 3\<close>, \<open>OP_CLOSE = 4\<close>, \<open>OP_SYNC = 5\<close>.
\<close>

datatype operation = OP_OPEN | OP_READ | OP_WRITE | OP_CLOSE | OP_SYNC

text \<open>
  Class \<open>IORequest\<close>. The attribute \<open>size\<close> is spelt \<open>size'\<close>, as \<open>size\<close> is a
  constant of HOL. \<open>begin_ts\<close> is always an event's timestamp.
\<close>

record IORequest =
  begin_ts :: int
  end_ts :: "int option"
  duration :: "int option"
  size' :: "int option"
  operation :: operation
  tid :: "int option"
  errno :: "int option"

definition IORequest_init :: "int \<Rightarrow> int option \<Rightarrow> int option \<Rightarrow> operation \<Rightarrow> IORequest" where
  "IORequest_init b sz t opr = \<lparr>begin_ts = b, end_ts = None, duration = None, size' = sz,
     operation = opr, tid = t, errno = None\<rparr>"

subsubsection \<open>Syscall I/O requests\<close>

record SyscallIORequest = IORequest +
  fd :: "int option"
  syscall_name :: string
  returned_size :: "int option"
  pages_allocated :: int
  pages_freed :: int
  pages_written :: int
  woke_kswapd :: bool

text \<open>
  \<open>SyscallIORequest.__init__(self, begin_ts, size, tid, operation, syscall_name)\<close> calls
  \<open>super().__init__(begin_ts, None, tid, operation)\<close>: the argument \<open>size\<close> is not
  passed on.
\<close>

definition SyscallIORequest_init ::
  "int \<Rightarrow> int option \<Rightarrow> int option \<Rightarrow> operation \<Rightarrow> string \<Rightarrow> SyscallIORequest" where
  "SyscallIORequest_init b sz t opr sname =
     IORequest.extend (IORequest_init b None t opr)
       (SyscallIORequest.fields None sname None 0 0 0 False)"

text \<open>
  \<open>SyscallIORequest.update_from_exit\<close>. It is inherited by every subclass, hence stated
  on the record scheme. \<open>end_ts\<close> and \<open>duration\<close> are assigned before \<open>event['ret']\<close>
  is read; \<open>self.end_ts - self.begin_ts\<close> reads the \<open>end_ts\<close> just assigned, the event's
  timestamp. When \<open>event['ret']\<close> raises, the result is the error alone: the state in
  which the exception leaves the object is not described.
\<close>

definition update_from_exit ::
  "'a SyscallIORequest_scheme \<Rightarrow> event \<Rightarrow> error + 'a SyscallIORequest_scheme" where
  "update_from_exit self ev =
     (let self1 = self\<lparr>end_ts := Some (timestamp ev)\<rparr>;
          self2 = self1\<lparr>duration := Some (timestamp ev - begin_ts self1)\<rparr>
      in and_then (getitem ev ''ret'') (\<lambda>r.
           if r < 0 then Inr (self2\<lparr>errno := Some (- r)\<rparr>) else Inr self2))"

subsubsection \<open>Open requests\<close>

record OpenIORequest = SyscallIORequest +
  filename :: string
  fd_type :: FDType
  family :: "int option"
  cloexec :: bool

definition OpenIORequest_init ::
  "int \<Rightarrow> int option \<Rightarrow> string \<Rightarrow> string \<Rightarrow> FDType \<Rightarrow> OpenIORequest" where
  "OpenIORequest_init b t sname fname ftype =
     (SyscallIORequest.extend (SyscallIORequest_init b None t OP_OPEN sname)
        (OpenIORequest.fields fname ftype None False))\<lparr>fd := None\<rparr>"

definition OpenIORequest_update_from_exit :: "OpenIORequest \<Rightarrow> event \<Rightarrow> error + OpenIORequest" where
  "OpenIORequest_update_from_exit self ev =
     and_then (update_from_exit self ev) (\<lambda>self1.
     and_then (getitem ev ''ret'') (\<lambda>r.
     if r \<ge> 0 then Inr (self1\<lparr>fd := Some r\<rparr>) else Inr self1))"

text \<open>
  In Python \<open>event['flags'] & common.O_CLOEXEC == common.O_CLOEXEC\<close> is
  \<open>(event['flags'] & common.O_CLOEXEC) == common.O_CLOEXEC\<close>: a comparison binds weaker
  than \<open>&\<close>.
\<close>

definition new_from_disk_open :: "common \<Rightarrow> event \<Rightarrow> int option \<Rightarrow> error + OpenIORequest" where
  "new_from_disk_open cm ev t =
     (let b = timestamp ev; sname = get_syscall_name cm ev
      in and_then (getitem_str ev ''filename'') (\<lambda>fname.
         let req = OpenIORequest_init b t sname fname disk
         in and_then (getitem ev ''flags'') (\<lambda>flags.
            Inr (req\<lparr>cloexec := (flags AND O_CLOEXEC cm = O_CLOEXEC cm)\<rparr>))))"

text \<open>
  Reading, by name, an attribute of an \<open>FD\<close> object that holds an \<open>FDType\<close>. An \<open>FD\<close>
  object has the attributes that \<open>FD.__init__\<close> and \<open>init_counts\<close> assign; the only one
  holding an \<open>FDType\<close> is \<open>fdtype\<close>. Any other name raises \<open>AttributeError\<close>.
\<close>

definition FD_getattr_type :: "'rq FD \<Rightarrow> string \<Rightarrow> error + FDType" where
  "FD_getattr_type obj attr =
     (if attr = ''fdtype'' then Inr (fdtype obj) else Inl (AttributeError attr))"

text \<open>
  \<open>OpenIORequest.new_from_old_fd\<close>. \<open>old_fd\<close> is \<open>None\<close> or an \<open>FD\<close> object. In the
  second case the code reads \<open>old_fd.filename\<close> and then \<open>old_fd.fd_type\<close>.
\<close>

definition new_from_old_fd ::
  "common \<Rightarrow> event \<Rightarrow> int option \<Rightarrow> 'rq FD option \<Rightarrow> error + OpenIORequest" where
  "new_from_old_fd cm ev t old_fd =
     (let b = timestamp ev; sname = get_syscall_name cm ev
      in and_then
           (case old_fd of
              None \<Rightarrow> Inr (''unknown'', unknown)
            | Some old \<Rightarrow>
                (let fname = FD.filename old
                 in and_then (FD_getattr_type old ''fd_type'') (\<lambda>ftype. Inr (fname, ftype))))
           (\<lambda>(fname, ftype). Inr (OpenIORequest_init b t sname fname ftype)))"

subsubsection \<open>Close requests\<close>

definition CloseIORequest_init :: "int \<Rightarrow> int option \<Rightarrow> int option \<Rightarrow> SyscallIORequest" where
  "CloseIORequest_init b t f = (SyscallIORequest_init b None t OP_CLOSE ''close'')\<lparr>fd := f\<rparr>"

subsubsection \<open>Read and write requests\<close>

record ReadWriteIORequest = SyscallIORequest +
  fd_in :: "int option"
  fd_out :: "int option"

definition ReadWriteIORequest_init ::
  "int \<Rightarrow> int option \<Rightarrow> int option \<Rightarrow> operation \<Rightarrow> string \<Rightarrow> ReadWriteIORequest" where
  "ReadWriteIORequest_init b sz t opr sname =
     SyscallIORequest.extend (SyscallIORequest_init b sz t opr sname)
       (ReadWriteIORequest.fields None None)"

definition ReadWriteIORequest_update_from_exit ::
  "ReadWriteIORequest \<Rightarrow> event \<Rightarrow> error + ReadWriteIORequest" where
  "ReadWriteIORequest_update_from_exit self ev =
     and_then (update_from_exit self ev) (\<lambda>self1.
     and_then (getitem ev ''ret'') (\<lambda>r.
     if r \<ge> 0 then
       (let self2 = self1\<lparr>returned_size := Some r\<rparr>
        in if size' self2 = None then Inr (self2\<lparr>size' := Some r\<rparr>) else Inr self2)
     else Inr self1))"

definition new_from_splice :: "event \<Rightarrow> int option \<Rightarrow> error + ReadWriteIORequest" where
  "new_from_splice ev t =
     (let b = timestamp ev
      in and_then (getitem ev ''len'') (\<lambda>sz.
         let req = ReadWriteIORequest_init b (Some sz) t OP_READ ''splice''
         in and_then (getitem ev ''fd_in'') (\<lambda>fi.
            and_then (getitem ev ''fd_out'') (\<lambda>fo.
            Inr (req\<lparr>fd_in := Some fi, fd_out := Some fo\<rparr>)))))"

definition new_from_sendfile64 :: "event \<Rightarrow> int option \<Rightarrow> error + ReadWriteIORequest" where
  "new_from_sendfile64 ev t =
     (let b = timestamp ev
      in and_then (getitem ev ''count'') (\<lambda>sz.
         let req = ReadWriteIORequest_init b (Some sz) t OP_READ ''sendfile64''
         in and_then (getitem ev ''in_fd'') (\<lambda>fi.
            and_then (getitem ev ''out_fd'') (\<lambda>fo.
            Inr (req\<lparr>fd_in := Some fi, fd_out := Some fo\<rparr>)))))"

text \<open>\<open>SyscallConsts.READ_SYSCALLS\<close>.\<close>

definition READ_SYSCALLS :: "string list" where
  "READ_SYSCALLS = [''read'', ''recvmsg'', ''recvfrom'', ''splice'', ''readv'', ''sendfile64'']"

definition new_from_fd_event ::
  "common \<Rightarrow> event \<Rightarrow> int option \<Rightarrow> string option \<Rightarrow> error + ReadWriteIORequest" where
  "new_from_fd_event cm ev t size_key =
     (let b = timestamp ev
      in and_then
           (case size_key of
              Some k \<Rightarrow> and_then (getitem ev k) (\<lambda>v. Inr (Some v))
            | None \<Rightarrow> Inr None)
           (\<lambda>sz.
              let sname = get_syscall_name cm ev;
                  opr = (if sname \<in> set READ_SYSCALLS then OP_READ else OP_WRITE);
                  req = ReadWriteIORequest_init b sz t opr sname
              in and_then (getitem ev ''fd'') (\<lambda>f. Inr (req\<lparr>fd := Some f\<rparr>))))"

subsubsection \<open>Sync requests\<close>

text \<open>Class \<open>SyncIORequest\<close> adds no attribute to \<open>SyscallIORequest\<close>.\<close>

definition SyncIORequest_init ::
  "int \<Rightarrow> int option \<Rightarrow> int option \<Rightarrow> string \<Rightarrow> SyscallIORequest" where
  "SyncIORequest_init b sz t sname = SyscallIORequest_init b sz t OP_SYNC sname"

definition SyncIORequest_update_from_exit ::
  "SyscallIORequest \<Rightarrow> event \<Rightarrow> error + SyscallIORequest" where
  "SyncIORequest_update_from_exit self ev =
     and_then (update_from_exit self ev) (\<lambda>self1.
     and_then (getitem ev ''ret'') (\<lambda>r.
     if r \<ge> 0 then
       (let self2 = self1\<lparr>returned_size := Some r\<rparr>
        in if size' self2 = None then Inr (self2\<lparr>size' := Some r\<rparr>) else Inr self2)
     else Inr self1))"

definition new_from_sync :: "event \<Rightarrow> int option \<Rightarrow> SyscallIORequest" where
  "new_from_sync ev t = SyncIORequest_init (timestamp ev) None t ''sync''"

definition new_from_fsync :: "common \<Rightarrow> event \<Rightarrow> int option \<Rightarrow> error + SyscallIORequest" where
  "new_from_fsync cm ev t =
     (let b = timestamp ev; sname = get_syscall_name cm ev;
          req = SyncIORequest_init b None t sname
      in and_then (getitem ev ''fd'') (\<lambda>f. Inr (req\<lparr>fd := Some f\<rparr>)))"

definition new_from_sync_file_range :: "event \<Rightarrow> int option \<Rightarrow> error + SyscallIORequest" where
  "new_from_sync_file_range ev t =
     (let b = timestamp ev
      in and_then (getitem ev ''nbytes'') (\<lambda>sz.
         let req = SyncIORequest_init b (Some sz) t ''sync_file_range''
         in and_then (getitem ev ''fd'') (\<lambda>f. Inr (req\<lparr>fd := Some f\<rparr>))))"

subsubsection \<open>Block I/O requests\<close>

record BlockIORequest = IORequest +
  dev :: int
  sector :: int
  nr_sector :: int

definition SECTOR_SIZE :: int where
  "SECTOR_SIZE = 512"

definition BlockIORequest_init ::
  "int \<Rightarrow> int option \<Rightarrow> operation \<Rightarrow> int \<Rightarrow> int \<Rightarrow> int \<Rightarrow> BlockIORequest" where
  "BlockIORequest_init b t opr d s n =
     (let sz = n * SECTOR_SIZE
      in IORequest.extend (IORequest_init b (Some sz) t opr) (BlockIORequest.fields d s n))"

definition update_from_rq_complete :: "BlockIORequest \<Rightarrow> event \<Rightarrow> BlockIORequest" where
  "update_from_rq_complete self ev =
     (let self1 = self\<lparr>end_ts := Some (timestamp ev)\<rparr>
      in self1\<lparr>duration := Some (timestamp ev - begin_ts self1)\<rparr>)"

definition new_from_rq_issue :: "event \<Rightarrow> error + BlockIORequest" where
  "new_from_rq_issue ev =
     (let b = timestamp ev
      in and_then (getitem ev ''dev'') (\<lambda>d.
         and_then (getitem ev ''sector'') (\<lambda>s.
         and_then (getitem ev ''nr_sector'') (\<lambda>n.
         and_then (getitem ev ''tid'') (\<lambda>t.
         and_then (getitem ev ''rwbs'') (\<lambda>rwbs.
         let opr = (if rwbs mod 2 = 0 then OP_READ else OP_WRITE)
         in Inr (BlockIORequest_init b (Some t) opr d s n)))))))"

section \<open>Softirq bookkeeping of a CPU\<close>

text \<open>
  Modelled from the spec: the automaton's handlers of the softirq raise and entry events,
  which maintain \<open>CPU.current_softirqs\<close>, are not among the sources; sv.py has the
  \<open>SoftIRQ\<close> constructors and the \<open>CPU\<close> class only. \<open>pending_softirqs\<close> is the
  spec's "ordered sequence of pending software IRQs" of a vector, empty for a vector that
  has no entry.
\<close>

definition pending_softirqs :: "CPU \<Rightarrow> int \<Rightarrow> SoftIRQ list" where
  "pending_softirqs cpu vec = (case current_softirqs cpu vec of None \<Rightarrow> [] | Some irqs \<Rightarrow> irqs)"

text \<open>
  Modelled from the spec: the handler of a softirq raise event (not among the sources).
  The spec: the "raise" path creates a record with \<open>raise_ts\<close> only, and "several
  instances of the same vector may be raised before any is serviced", in an ordered list
  per vector. So a raise appends the record of \<open>new_from_softirq_raise\<close> to its vector's
  list.
\<close>

definition process_softirq_raise :: "CPU \<Rightarrow> event \<Rightarrow> error + CPU" where
  "process_softirq_raise cpu ev =
     and_then (new_from_softirq_raise ev) (\<lambda>irq.
     Inr (cpu\<lparr>current_softirqs :=
            (current_softirqs cpu)(id' irq \<mapsto> pending_softirqs cpu (id' irq) @ [irq])\<rparr>))"

text \<open>
  Modelled from the spec: the handler of a softirq entry event (not among the sources).
  The spec: an entry on a vector with a raised record yields "a single pending record
  with raise_ts and begin_ts (not two separate records)", and the "entry" path creates a
  record with \<open>begin_ts\<close> only. So an entry stamps \<open>begin_ts\<close> on the oldest pending
  record of its vector, and creates the record of \<open>new_from_softirq_entry\<close> when the
  vector has none. The spec does not say which record is serviced when several are
  pending; the oldest is this model's choice.
\<close>

definition process_softirq_entry :: "CPU \<Rightarrow> event \<Rightarrow> error + CPU" where
  "process_softirq_entry cpu ev =
     and_then (getitem ev ''vec'') (\<lambda>vec.
     case pending_softirqs cpu vec of
       [] \<Rightarrow>
         and_then (new_from_softirq_entry ev) (\<lambda>irq.
         Inr (cpu\<lparr>current_softirqs := (current_softirqs cpu)(vec \<mapsto> [irq])\<rparr>))
     | irq # rest \<Rightarrow>
         Inr (cpu\<lparr>current_softirqs :=
                (current_softirqs cpu)(vec \<mapsto> irq\<lparr>IRQ.begin_ts := Some (timestamp ev)\<rparr> # rest)\<rparr>))"

section \<open>Properties\<close>

subsection \<open>Unfolding and evaluation\<close>

lemmas record_defs = IORequest.defs SyscallIORequest.defs OpenIORequest.defs
  ReadWriteIORequest.defs BlockIORequest.defs IRQ.defs SoftIRQ.defs HardIRQ.defs

lemmas init_defs = IORequest_init_def SyscallIORequest_init_def OpenIORequest_init_def
  ReadWriteIORequest_init_def SyncIORequest_init_def CloseIORequest_init_def
  BlockIORequest_init_def IRQ_init_def SoftIRQ_init_def HardIRQ_init_def

lemmas op_defs = update_from_exit_def OpenIORequest_update_from_exit_def
  ReadWriteIORequest_update_from_exit_def SyncIORequest_update_from_exit_def
  update_from_rq_complete_def getitem_def getitem_str_def and_then_def Let_def

lemma getitem_Some: "int_fields ev k = Some v \<Longrightarrow> getitem ev k = Inr v"
  by (simp add: getitem_def)

lemma getitem_str_Some: "str_fields ev k = Some v \<Longrightarrow> getitem_str ev k = Inr v"
  by (simp add: getitem_str_def)

lemma and_then_Inr: "and_then (Inr v) f = f v"
  by (simp add: and_then_def)

lemma and_then_Inl: "and_then (Inl e) f = Inl e"
  by (simp add: and_then_def)

lemma update_from_exit_ret:
  "int_fields ev ''ret'' = Some r \<Longrightarrow>
   update_from_exit self ev =
     Inr (self\<lparr>end_ts := Some (timestamp ev), duration := Some (timestamp ev - begin_ts self),
               errno := (if r < 0 then Some (- r) else errno self)\<rparr>)"
  by (simp add: update_from_exit_def Let_def getitem_Some and_then_Inr)

lemma OpenIORequest_update_from_exit_ret:
  "int_fields ev ''ret'' = Some r \<Longrightarrow>
   OpenIORequest_update_from_exit self ev =
     Inr (self\<lparr>end_ts := Some (timestamp ev), duration := Some (timestamp ev - begin_ts self),
               errno := (if r < 0 then Some (- r) else errno self),
               fd := (if 0 \<le> r then Some r else fd self)\<rparr>)"
  by (simp add: OpenIORequest_update_from_exit_def update_from_exit_ret getitem_Some and_then_Inr)

lemma ReadWriteIORequest_update_from_exit_ret:
  "int_fields ev ''ret'' = Some r \<Longrightarrow>
   ReadWriteIORequest_update_from_exit self ev =
     Inr (self\<lparr>end_ts := Some (timestamp ev), duration := Some (timestamp ev - begin_ts self),
               errno := (if r < 0 then Some (- r) else errno self),
               returned_size := (if 0 \<le> r then Some r else returned_size self),
               size' := (if 0 \<le> r \<and> size' self = None then Some r else size' self)\<rparr>)"
  by (simp add: ReadWriteIORequest_update_from_exit_def update_from_exit_ret getitem_Some
      and_then_Inr Let_def)

lemma SyncIORequest_update_from_exit_ret:
  "int_fields ev ''ret'' = Some r \<Longrightarrow>
   SyncIORequest_update_from_exit self ev =
     Inr (self\<lparr>end_ts := Some (timestamp ev), duration := Some (timestamp ev - begin_ts self),
               errno := (if r < 0 then Some (- r) else errno self),
               returned_size := (if 0 \<le> r then Some r else returned_size self),
               size' := (if 0 \<le> r \<and> size' self = None then Some r else size' self)\<rparr>)"
  by (simp add: SyncIORequest_update_from_exit_def update_from_exit_ret getitem_Some
      and_then_Inr Let_def)


subsection \<open>Block requests\<close>

text \<open>
  Claim C4. \<open>BlockIORequest.new_from_rq_issue\<close> classifies the operation by the parity of
  the event's \<open>rwbs\<close> field, an even value giving a read and an odd value a write, and sets
  the size in bytes to \<open>nr_sector\<close> times the sector size 512. The event has the five
  fields the constructor reads.
\<close>

theorem rq_issue_parity_and_size:
  assumes "int_fields ev ''dev'' = Some d" and "int_fields ev ''sector'' = Some s"
    and "int_fields ev ''nr_sector'' = Some n" and "int_fields ev ''tid'' = Some t"
    and "int_fields ev ''rwbs'' = Some rwbs"
  shows "\<exists>rq. new_from_rq_issue ev = Inr rq
           \<and> operation rq = (if even rwbs then OP_READ else OP_WRITE)
           \<and> size' rq = Some (n * 512) \<and> nr_sector rq = n
           \<and> dev rq = d \<and> sector rq = s \<and> tid rq = Some t \<and> begin_ts rq = timestamp ev"
  using assms
  by (simp add: new_from_rq_issue_def getitem_Some and_then_Inr BlockIORequest_init_def
      IORequest_init_def SECTOR_SIZE_def record_defs even_iff_mod_2_eq_zero)

theorem rq_issue_parity_and_size_witness:
  "(\<exists>rq. new_from_rq_issue \<lparr>timestamp = 5, name = ''block_rq_issue'',
        int_fields = [''dev'' \<mapsto> 8, ''sector'' \<mapsto> 100, ''nr_sector'' \<mapsto> 8, ''tid'' \<mapsto> 42,
          ''rwbs'' \<mapsto> 4], str_fields = Map.empty\<rparr> = Inr rq
      \<and> operation rq = OP_READ \<and> size' rq = Some 4096)
   \<and> (\<exists>rq. new_from_rq_issue \<lparr>timestamp = 5, name = ''block_rq_issue'',
        int_fields = [''dev'' \<mapsto> 8, ''sector'' \<mapsto> 100, ''nr_sector'' \<mapsto> 8, ''tid'' \<mapsto> 42,
          ''rwbs'' \<mapsto> 5], str_fields = Map.empty\<rparr> = Inr rq
      \<and> operation rq = OP_WRITE \<and> size' rq = Some 4096)"
  using
    rq_issue_parity_and_size [of "\<lparr>timestamp = 5, name = ''block_rq_issue'',
        int_fields = [''dev'' \<mapsto> 8, ''sector'' \<mapsto> 100, ''nr_sector'' \<mapsto> 8, ''tid'' \<mapsto> 42,
          ''rwbs'' \<mapsto> 4], str_fields = Map.empty\<rparr>" 8 100 8 42 4]
    rq_issue_parity_and_size [of "\<lparr>timestamp = 5, name = ''block_rq_issue'',
        int_fields = [''dev'' \<mapsto> 8, ''sector'' \<mapsto> 100, ''nr_sector'' \<mapsto> 8, ''tid'' \<mapsto> 42,
          ''rwbs'' \<mapsto> 5], str_fields = Map.empty\<rparr>" 8 100 8 42 5]
  by auto

subsection \<open>Finalization\<close>

text \<open>
  Claim C2. A request finalized by its exit or complete update, by an event whose timestamp
  is not smaller than the request's \<open>begin_ts\<close>, has \<open>end_ts \<ge> begin_ts\<close> and
  \<open>duration = end_ts - begin_ts\<close>. This holds for \<open>SyscallIORequest.update_from_exit\<close>
  (also inherited by close requests), for its overrides in the open, read/write and sync
  requests, and for \<open>BlockIORequest.update_from_rq_complete\<close>. The syscall exit event
  \<open>ev\<close> has the field \<open>ret\<close> that the syscall updates read; the block completion event
  \<open>cev\<close> is any event, as \<open>update_from_rq_complete\<close> reads its timestamp only.
\<close>

theorem finalized_span:
  assumes "int_fields ev ''ret'' = Some r"
    and "begin_ts rq \<le> timestamp ev" and "begin_ts orq \<le> timestamp ev"
    and "begin_ts rw \<le> timestamp ev" and "begin_ts sy \<le> timestamp ev"
    and "begin_ts blk \<le> timestamp cev"
  shows "(\<exists>rq' t d. update_from_exit rq ev = Inr rq' \<and> end_ts rq' = Some t \<and> duration rq' = Some d
            \<and> begin_ts rq' \<le> t \<and> d = t - begin_ts rq')
       \<and> (\<exists>rq' t d. OpenIORequest_update_from_exit orq ev = Inr rq' \<and> end_ts rq' = Some t
            \<and> duration rq' = Some d \<and> begin_ts rq' \<le> t \<and> d = t - begin_ts rq')
       \<and> (\<exists>rq' t d. ReadWriteIORequest_update_from_exit rw ev = Inr rq' \<and> end_ts rq' = Some t
            \<and> duration rq' = Some d \<and> begin_ts rq' \<le> t \<and> d = t - begin_ts rq')
       \<and> (\<exists>rq' t d. SyncIORequest_update_from_exit sy ev = Inr rq' \<and> end_ts rq' = Some t
            \<and> duration rq' = Some d \<and> begin_ts rq' \<le> t \<and> d = t - begin_ts rq')
       \<and> (\<exists>t d. end_ts (update_from_rq_complete blk cev) = Some t
            \<and> duration (update_from_rq_complete blk cev) = Some d
            \<and> begin_ts (update_from_rq_complete blk cev) \<le> t
            \<and> d = t - begin_ts (update_from_rq_complete blk cev))"
proof (intro conjI)
  show "\<exists>rq' t d. update_from_exit rq ev = Inr rq' \<and> end_ts rq' = Some t \<and> duration rq' = Some d
            \<and> begin_ts rq' \<le> t \<and> d = t - begin_ts rq'"
    using assms(1,2) by (simp add: update_from_exit_ret)
  show "\<exists>rq' t d. OpenIORequest_update_from_exit orq ev = Inr rq' \<and> end_ts rq' = Some t
            \<and> duration rq' = Some d \<and> begin_ts rq' \<le> t \<and> d = t - begin_ts rq'"
    using assms(1,3) by (simp add: OpenIORequest_update_from_exit_ret)
  show "\<exists>rq' t d. ReadWriteIORequest_update_from_exit rw ev = Inr rq' \<and> end_ts rq' = Some t
            \<and> duration rq' = Some d \<and> begin_ts rq' \<le> t \<and> d = t - begin_ts rq'"
    using assms(1,4) by (simp add: ReadWriteIORequest_update_from_exit_ret)
  show "\<exists>rq' t d. SyncIORequest_update_from_exit sy ev = Inr rq' \<and> end_ts rq' = Some t
            \<and> duration rq' = Some d \<and> begin_ts rq' \<le> t \<and> d = t - begin_ts rq'"
    using assms(1,5) by (simp add: SyncIORequest_update_from_exit_ret)
  show "\<exists>t d. end_ts (update_from_rq_complete blk cev) = Some t
            \<and> duration (update_from_rq_complete blk cev) = Some d
            \<and> begin_ts (update_from_rq_complete blk cev) \<le> t
            \<and> d = t - begin_ts (update_from_rq_complete blk cev)"
    using assms(6) by (simp add: update_from_rq_complete_def Let_def)
qed

theorem finalized_span_witness:
  "(\<exists>rq'. update_from_exit (CloseIORequest_init 10 (Some 42) (Some 3))
        \<lparr>timestamp = 12, name = ''syscall_exit_close'', int_fields = [''ret'' \<mapsto> 0],
          str_fields = Map.empty\<rparr> = Inr rq'
      \<and> end_ts rq' = Some 12 \<and> duration rq' = Some 2 \<and> begin_ts rq' = 10)
   \<and> (\<exists>rq'. OpenIORequest_update_from_exit
        (OpenIORequest_init 10 (Some 42) ''open'' ''/tmp/a'' disk)
        \<lparr>timestamp = 12, name = ''syscall_exit_close'', int_fields = [''ret'' \<mapsto> 0],
          str_fields = Map.empty\<rparr> = Inr rq'
      \<and> end_ts rq' = Some 12 \<and> duration rq' = Some 2 \<and> begin_ts rq' = 10)
   \<and> (\<exists>rq'. ReadWriteIORequest_update_from_exit
        (ReadWriteIORequest_init 10 None (Some 42) OP_READ ''read'')
        \<lparr>timestamp = 12, name = ''syscall_exit_close'', int_fields = [''ret'' \<mapsto> 0],
          str_fields = Map.empty\<rparr> = Inr rq'
      \<and> end_ts rq' = Some 12 \<and> duration rq' = Some 2 \<and> begin_ts rq' = 10)
   \<and> (\<exists>rq'. SyncIORequest_update_from_exit (SyncIORequest_init 10 None (Some 42) ''sync'')
        \<lparr>timestamp = 12, name = ''syscall_exit_close'', int_fields = [''ret'' \<mapsto> 0],
          str_fields = Map.empty\<rparr> = Inr rq'
      \<and> end_ts rq' = Some 12 \<and> duration rq' = Some 2 \<and> begin_ts rq' = 10)
   \<and> end_ts (update_from_rq_complete (BlockIORequest_init 10 (Some 42) OP_READ 8 100 8)
        \<lparr>timestamp = 12, name = ''block_rq_complete'',
          int_fields = [''dev'' \<mapsto> 8, ''sector'' \<mapsto> 100], str_fields = Map.empty\<rparr>) = Some 12
   \<and> duration (update_from_rq_complete (BlockIORequest_init 10 (Some 42) OP_READ 8 100 8)
        \<lparr>timestamp = 12, name = ''block_rq_complete'',
          int_fields = [''dev'' \<mapsto> 8, ''sector'' \<mapsto> 100], str_fields = Map.empty\<rparr>) = Some 2"
  using finalized_span [of
      "\<lparr>timestamp = 12, name = ''syscall_exit_close'', int_fields = [''ret'' \<mapsto> 0],
        str_fields = Map.empty\<rparr>" 0
      "CloseIORequest_init 10 (Some 42) (Some 3)"
      "OpenIORequest_init 10 (Some 42) ''open'' ''/tmp/a'' disk"
      "ReadWriteIORequest_init 10 None (Some 42) OP_READ ''read''"
      "SyncIORequest_init 10 None (Some 42) ''sync''"
      "BlockIORequest_init 10 (Some 42) OP_READ 8 100 8"
      "\<lparr>timestamp = 12, name = ''block_rq_complete'',
        int_fields = [''dev'' \<mapsto> 8, ''sector'' \<mapsto> 100], str_fields = Map.empty\<rparr>"]
  by (simp add: init_defs record_defs op_defs SECTOR_SIZE_def)

subsection \<open>Sizes and return values of syscall requests\<close>

lemma SyscallIORequest_init_size: "size' (SyscallIORequest_init b sz t opr sname) = None"
  by (simp add: init_defs record_defs)

text \<open>
  Claim C1 says that a syscall request built from an entry event with a size field
  (\<open>len\<close> of splice, \<open>count\<close> of sendfile64, \<open>nbytes\<close> of sync_file_range, the
  \<open>size_key\<close> of a read or write) has that field's value as its size. The code does not
  do so: every constructor passes the size it read to \<open>SyscallIORequest.__init__\<close>, which
  drops it (\<open>SyscallIORequest_init_size\<close>), so the size is unset after construction for
  every syscall request. The evaluation below is of the four constructors on events whose
  size field is 4096.
\<close>

theorem entry_size_unset:
  "(\<exists>rq. new_from_splice
        \<lparr>timestamp = 10, name = ''syscall_entry_splice'',
          int_fields = [''len'' \<mapsto> 4096, ''fd_in'' \<mapsto> 3, ''fd_out'' \<mapsto> 4],
          str_fields = Map.empty\<rparr> (Some 42) = Inr rq
      \<and> size' rq = None \<and> fd_in rq = Some 3 \<and> fd_out rq = Some 4)
   \<and> (\<exists>rq. new_from_sendfile64
        \<lparr>timestamp = 10, name = ''syscall_entry_sendfile64'',
          int_fields = [''count'' \<mapsto> 4096, ''in_fd'' \<mapsto> 3, ''out_fd'' \<mapsto> 4],
          str_fields = Map.empty\<rparr> (Some 42) = Inr rq
      \<and> size' rq = None)
   \<and> (\<exists>rq. new_from_sync_file_range
        \<lparr>timestamp = 10, name = ''syscall_entry_sync_file_range'',
          int_fields = [''nbytes'' \<mapsto> 4096, ''fd'' \<mapsto> 3], str_fields = Map.empty\<rparr>
        (Some 42) = Inr rq
      \<and> size' rq = None)
   \<and> (\<exists>rq. new_from_fd_event
        \<lparr>get_syscall_name = (\<lambda>ev. drop 14 (name ev)), O_CLOEXEC = 524288\<rparr>
        \<lparr>timestamp = 10, name = ''syscall_entry_read'',
          int_fields = [''count'' \<mapsto> 4096, ''fd'' \<mapsto> 3], str_fields = Map.empty\<rparr>
        (Some 42) (Some ''count'') = Inr rq
      \<and> size' rq = None \<and> operation rq = OP_READ \<and> syscall_name rq = ''read'')"
  by (simp add: new_from_splice_def new_from_sendfile64_def new_from_sync_file_range_def
      new_from_fd_event_def READ_SYSCALLS_def op_defs init_defs record_defs)

text \<open>
  Claim C3. Finalizing a read/write or a sync request by \<open>update_from_exit\<close> with a
  non-negative \<open>ret\<close> gives \<open>returned_size = ret\<close>, and \<open>size = returned_size\<close> when
  the size was unset at entry; a size that was set at entry is left unchanged by the exit
  update (whatever \<open>ret\<close> is).
\<close>

theorem exit_backfills_size:
  assumes "int_fields ev ''ret'' = Some r"
  shows "\<exists>rw' sy'. ReadWriteIORequest_update_from_exit rw ev = Inr rw'
           \<and> SyncIORequest_update_from_exit sy ev = Inr sy'
           \<and> (0 \<le> r \<longrightarrow> returned_size rw' = Some r \<and> returned_size sy' = Some r)
           \<and> (0 \<le> r \<and> size' rw = None \<longrightarrow> size' rw' = returned_size rw')
           \<and> (0 \<le> r \<and> size' sy = None \<longrightarrow> size' sy' = returned_size sy')
           \<and> (size' rw \<noteq> None \<longrightarrow> size' rw' = size' rw)
           \<and> (size' sy \<noteq> None \<longrightarrow> size' sy' = size' sy)"
  using assms
  by (simp add: ReadWriteIORequest_update_from_exit_ret SyncIORequest_update_from_exit_ret)

theorem exit_backfills_size_witness:
  "(\<exists>rw'. ReadWriteIORequest_update_from_exit
        (ReadWriteIORequest_init 10 None (Some 42) OP_READ ''recvmsg'')
        \<lparr>timestamp = 12, name = ''syscall_exit_recvmsg'', int_fields = [''ret'' \<mapsto> 5],
          str_fields = Map.empty\<rparr> = Inr rw'
      \<and> returned_size rw' = Some 5 \<and> size' rw' = Some 5)
   \<and> (\<exists>sy'. SyncIORequest_update_from_exit (SyncIORequest_init 10 None (Some 42) ''fsync'')
        \<lparr>timestamp = 12, name = ''syscall_exit_recvmsg'', int_fields = [''ret'' \<mapsto> 5],
          str_fields = Map.empty\<rparr> = Inr sy'
      \<and> returned_size sy' = Some 5 \<and> size' sy' = Some 5)
   \<and> (\<exists>rw'. ReadWriteIORequest_update_from_exit
        ((ReadWriteIORequest_init 10 None (Some 42) OP_READ ''read'')\<lparr>size' := Some 100\<rparr>)
        \<lparr>timestamp = 12, name = ''syscall_exit_recvmsg'', int_fields = [''ret'' \<mapsto> 5],
          str_fields = Map.empty\<rparr> = Inr rw'
      \<and> returned_size rw' = Some 5 \<and> size' rw' = Some 100)
   \<and> (\<exists>sy'. SyncIORequest_update_from_exit
        ((SyncIORequest_init 10 None (Some 42) ''sync_file_range'')\<lparr>size' := Some 100\<rparr>)
        \<lparr>timestamp = 12, name = ''syscall_exit_recvmsg'', int_fields = [''ret'' \<mapsto> 5],
          str_fields = Map.empty\<rparr> = Inr sy'
      \<and> returned_size sy' = Some 5 \<and> size' sy' = Some 100)"
  using
    exit_backfills_size [of
      "\<lparr>timestamp = 12, name = ''syscall_exit_recvmsg'', int_fields = [''ret'' \<mapsto> 5],
        str_fields = Map.empty\<rparr>" 5
      "ReadWriteIORequest_init 10 None (Some 42) OP_READ ''recvmsg''"
      "SyncIORequest_init 10 None (Some 42) ''fsync''"]
    exit_backfills_size [of
      "\<lparr>timestamp = 12, name = ''syscall_exit_recvmsg'', int_fields = [''ret'' \<mapsto> 5],
        str_fields = Map.empty\<rparr>" 5
      "(ReadWriteIORequest_init 10 None (Some 42) OP_READ ''read'')\<lparr>size' := Some 100\<rparr>"
      "(SyncIORequest_init 10 None (Some 42) ''sync_file_range'')\<lparr>size' := Some 100\<rparr>"]
  by (auto simp add: init_defs record_defs)

text \<open>
  Claim C6. Finalizing a non-open syscall request (the base \<open>update_from_exit\<close>, which
  close requests use, and its overrides for read/write and sync requests) with a negative
  \<open>ret\<close> sets \<open>errno\<close> to the positive value \<open>- ret\<close> and raises nothing; with a
  non-negative \<open>ret\<close> the \<open>errno\<close> is left as it was, which is unset for a request as
  constructed.
\<close>

theorem exit_records_errno:
  assumes "int_fields ev ''ret'' = Some r"
  shows "\<exists>rq' rw' sy'. update_from_exit rq ev = Inr rq'
           \<and> ReadWriteIORequest_update_from_exit rw ev = Inr rw'
           \<and> SyncIORequest_update_from_exit sy ev = Inr sy'
           \<and> (r < 0 \<longrightarrow> 0 < - r \<and> errno rq' = Some (- r) \<and> errno rw' = Some (- r)
                 \<and> errno sy' = Some (- r))
           \<and> (0 \<le> r \<longrightarrow> errno rq' = errno rq \<and> errno rw' = errno rw \<and> errno sy' = errno sy)
           \<and> errno (SyscallIORequest_init b sz t opr sname) = None"
  using assms
  by (simp add: update_from_exit_ret ReadWriteIORequest_update_from_exit_ret
      SyncIORequest_update_from_exit_ret init_defs record_defs)

theorem exit_records_errno_witness:
  "(\<exists>rq'. update_from_exit (CloseIORequest_init 10 (Some 42) (Some 3))
        \<lparr>timestamp = 12, name = ''syscall_exit_close'', int_fields = [''ret'' \<mapsto> - 9],
          str_fields = Map.empty\<rparr> = Inr rq' \<and> errno rq' = Some 9)
   \<and> (\<exists>rw'. ReadWriteIORequest_update_from_exit
        (ReadWriteIORequest_init 10 None (Some 42) OP_READ ''read'')
        \<lparr>timestamp = 12, name = ''syscall_exit_close'', int_fields = [''ret'' \<mapsto> - 9],
          str_fields = Map.empty\<rparr> = Inr rw' \<and> errno rw' = Some 9)
   \<and> (\<exists>sy'. SyncIORequest_update_from_exit (SyncIORequest_init 10 None (Some 42) ''fsync'')
        \<lparr>timestamp = 12, name = ''syscall_exit_close'', int_fields = [''ret'' \<mapsto> - 9],
          str_fields = Map.empty\<rparr> = Inr sy' \<and> errno sy' = Some 9)
   \<and> (\<exists>rq'. update_from_exit (CloseIORequest_init 10 (Some 42) (Some 3))
        \<lparr>timestamp = 12, name = ''syscall_exit_close'', int_fields = [''ret'' \<mapsto> 0],
          str_fields = Map.empty\<rparr> = Inr rq' \<and> errno rq' = None)
   \<and> (\<exists>rw'. ReadWriteIORequest_update_from_exit
        (ReadWriteIORequest_init 10 None (Some 42) OP_READ ''read'')
        \<lparr>timestamp = 12, name = ''syscall_exit_close'', int_fields = [''ret'' \<mapsto> 0],
          str_fields = Map.empty\<rparr> = Inr rw' \<and> errno rw' = None)
   \<and> (\<exists>sy'. SyncIORequest_update_from_exit (SyncIORequest_init 10 None (Some 42) ''fsync'')
        \<lparr>timestamp = 12, name = ''syscall_exit_close'', int_fields = [''ret'' \<mapsto> 0],
          str_fields = Map.empty\<rparr> = Inr sy' \<and> errno sy' = None)"
  using
    exit_records_errno [of
      "\<lparr>timestamp = 12, name = ''syscall_exit_close'', int_fields = [''ret'' \<mapsto> - 9],
        str_fields = Map.empty\<rparr>" "- 9"
      "CloseIORequest_init 10 (Some 42) (Some 3)"
      "ReadWriteIORequest_init 10 None (Some 42) OP_READ ''read''"
      "SyncIORequest_init 10 None (Some 42) ''fsync''"]
    exit_records_errno [of
      "\<lparr>timestamp = 12, name = ''syscall_exit_close'', int_fields = [''ret'' \<mapsto> 0],
        str_fields = Map.empty\<rparr>" 0
      "CloseIORequest_init 10 (Some 42) (Some 3)"
      "ReadWriteIORequest_init 10 None (Some 42) OP_READ ''read''"
      "SyncIORequest_init 10 None (Some 42) ''fsync''"]
  by (auto simp add: init_defs record_defs)

subsection \<open>Open requests\<close>

text \<open>
  Claim C5 says that \<open>OpenIORequest.new_from_old_fd\<close> gives \<open>filename = "unknown"\<close>
  and \<open>fd_type = unknown\<close> without error for an untracked descriptor (\<open>old_fd\<close> is
  \<open>None\<close>), and copies \<open>filename\<close> and \<open>fd_type\<close> from a tracked one. The first part
  holds. The second does not: for every tracked descriptor the constructor raises
  \<open>AttributeError\<close>, as it reads \<open>old_fd.fd_type\<close> and class \<open>FD\<close> calls the attribute
  \<open>fdtype\<close>.
\<close>

theorem new_from_old_fd_tracked_raises:
  "new_from_old_fd cm ev t (Some old) = Inl (AttributeError ''fd_type'')
   \<and> (\<exists>rq. new_from_old_fd cm ev t (None :: unit FD option) = Inr rq
         \<and> filename rq = ''unknown'' \<and> fd_type rq = unknown)"
  by (simp add: new_from_old_fd_def FD_getattr_type_def op_defs init_defs record_defs)

text \<open>
  Claim C8. An open request built by \<open>new_from_disk_open\<close> from an entry event and then
  finalized by \<open>update_from_exit\<close> with a non-negative \<open>ret\<close> has \<open>fd = ret\<close>,
  \<open>cloexec\<close> true exactly when the flags include \<open>O_CLOEXEC\<close>, and the difference of
  the two timestamps as \<open>duration\<close>; and for any open request a non-negative return
  assigns the new descriptor number. The witness is the scenario of the claim: entry at
  timestamp 10 with filename "/tmp/a" and flags \<open>O_RDWR | O_CLOEXEC\<close>, exit at 12 with
  \<open>ret = 7\<close>.
\<close>

theorem disk_open_then_exit:
  assumes "str_fields en ''filename'' = Some fname" and "int_fields en ''flags'' = Some flags"
    and "int_fields ex ''ret'' = Some r" and "0 \<le> r"
  shows "\<exists>rq rq' orq'. new_from_disk_open cm en t = Inr rq
           \<and> OpenIORequest_update_from_exit rq ex = Inr rq'
           \<and> fd rq' = Some r
           \<and> cloexec rq' = (flags AND O_CLOEXEC cm = O_CLOEXEC cm)
           \<and> duration rq' = Some (timestamp ex - timestamp en)
           \<and> filename rq' = fname \<and> fd_type rq' = disk \<and> operation rq' = OP_OPEN
           \<and> OpenIORequest_update_from_exit orq ex = Inr orq' \<and> fd orq' = Some r"
  using assms
  by (simp add: new_from_disk_open_def Let_def getitem_Some getitem_str_Some and_then_Inr
      OpenIORequest_update_from_exit_ret init_defs record_defs)

theorem disk_open_then_exit_witness:
  "\<exists>rq rq'. new_from_disk_open
        \<lparr>get_syscall_name = (\<lambda>ev. drop 14 (name ev)), O_CLOEXEC = 524288\<rparr>
        \<lparr>timestamp = 10, name = ''syscall_entry_open'', int_fields = [''flags'' \<mapsto> 524290],
          str_fields = [''filename'' \<mapsto> ''/tmp/a'']\<rparr> (Some 42) = Inr rq
      \<and> OpenIORequest_update_from_exit rq
        \<lparr>timestamp = 12, name = ''syscall_exit_open'', int_fields = [''ret'' \<mapsto> 7],
          str_fields = Map.empty\<rparr> = Inr rq'
      \<and> fd rq' = Some 7 \<and> cloexec rq' = True \<and> duration rq' = Some 2"
  using disk_open_then_exit [of
      "\<lparr>timestamp = 10, name = ''syscall_entry_open'', int_fields = [''flags'' \<mapsto> 524290],
        str_fields = [''filename'' \<mapsto> ''/tmp/a'']\<rparr>" "''/tmp/a''" 524290
      "\<lparr>timestamp = 12, name = ''syscall_exit_open'', int_fields = [''ret'' \<mapsto> 7],
        str_fields = Map.empty\<rparr>" 7
      "\<lparr>get_syscall_name = (\<lambda>ev. drop 14 (name ev)), O_CLOEXEC = 524288\<rparr>"
      "Some 42"
      "OpenIORequest_init 10 (Some 42) ''open'' ''/tmp/a'' disk"]
  by auto

text \<open>
  Claim C10. Finalizing an open request with a negative \<open>ret\<close> sets \<open>errno\<close> to the
  positive value \<open>- ret\<close> and leaves \<open>fd\<close> as it was, which is unset for every open
  request as constructed.
\<close>

theorem open_exit_negative_ret:
  assumes "int_fields ev ''ret'' = Some r" and "r < 0"
  shows "\<exists>rq'. OpenIORequest_update_from_exit rq ev = Inr rq'
           \<and> errno rq' = Some (- r) \<and> 0 < - r \<and> fd rq' = fd rq
           \<and> fd (OpenIORequest_init b t sname fname ftype) = None"
  using assms
  by (simp add: OpenIORequest_update_from_exit_ret init_defs record_defs)

theorem open_exit_negative_ret_witness:
  "\<exists>rq'. OpenIORequest_update_from_exit
        (OpenIORequest_init 10 (Some 42) ''open'' ''/tmp/a'' disk)
        \<lparr>timestamp = 12, name = ''syscall_exit_open'', int_fields = [''ret'' \<mapsto> - 2],
          str_fields = Map.empty\<rparr> = Inr rq'
      \<and> errno rq' = Some 2 \<and> fd rq' = None"
  using open_exit_negative_ret [of
      "\<lparr>timestamp = 12, name = ''syscall_exit_open'', int_fields = [''ret'' \<mapsto> - 2],
        str_fields = Map.empty\<rparr>" "- 2"
      "OpenIORequest_init 10 (Some 42) ''open'' ''/tmp/a'' disk"]
  by (auto simp add: init_defs record_defs)

subsection \<open>Duplication of file descriptors\<close>

lemma init_counts_fields:
  "net_read (init_counts self) = 0 \<and> net_write (init_counts self) = 0
   \<and> disk_read (init_counts self) = 0 \<and> disk_write (init_counts self) = 0
   \<and> unk_read (init_counts self) = 0 \<and> unk_write (init_counts self) = 0
   \<and> read (init_counts self) = 0 \<and> write' (init_counts self) = 0
   \<and> iorequests (init_counts self) = []
   \<and> FD.filename (init_counts self) = FD.filename self \<and> FD.fd (init_counts self) = FD.fd self
   \<and> FD.family (init_counts self) = FD.family self \<and> fdtype (init_counts self) = fdtype self
   \<and> parent (init_counts self) = parent self \<and> FD.cloexec (init_counts self) = FD.cloexec self"
  by (simp add: init_counts_def)

lemma new_from_fd_fields:
  "FD.filename (new_from_fd fresh src) = FD.filename src
   \<and> FD.fd (new_from_fd fresh src) = FD.fd src
   \<and> FD.family (new_from_fd fresh src) = FD.family src
   \<and> fdtype (new_from_fd fresh src) = fdtype src
   \<and> parent (new_from_fd fresh src) = parent src
   \<and> FD.cloexec (new_from_fd fresh src) = FD.cloexec src
   \<and> net_read (new_from_fd fresh src) = 0 \<and> net_write (new_from_fd fresh src) = 0
   \<and> disk_read (new_from_fd fresh src) = 0 \<and> disk_write (new_from_fd fresh src) = 0
   \<and> unk_read (new_from_fd fresh src) = 0 \<and> unk_write (new_from_fd fresh src) = 0
   \<and> read (new_from_fd fresh src) = 0 \<and> write' (new_from_fd fresh src) = 0
   \<and> iorequests (new_from_fd fresh src) = []"
  by (simp add: new_from_fd_def FD_init_def Let_def init_counts_fields)

lemma new_from_fd_at_valid:
  "ref < length store \<Longrightarrow>
   new_from_fd_at fresh store ref =
     Some (length store, store @ [new_from_fd fresh (store ! ref)])"
  by (simp add: new_from_fd_at_def FD_alloc_def)

text \<open>
  Claim C7. \<open>FD.new_from_fd\<close> returns an FD whose identity fields (filename, fd number,
  family, fdtype, parent, cloexec) are the source's, whose transfer counters (net, disk and
  unknown, read and write, and the two totals) are all zero and whose request history is
  empty, whatever the source has accumulated and whatever the newly allocated object held.
  Duplicating the same source twice yields two such objects \<open>d1\<close> and \<open>d2\<close>, at
  references distinct from each other and from the source's; the source is unchanged, and
  assigning to one duplicate leaves the other and the source as they are.
\<close>

theorem new_from_fd_duplicates:
  assumes "ref < length store" and "store ! ref = src"
  shows "\<exists>r1 st1 r2 st2 d1 d2.
      new_from_fd_at fresh1 store ref = Some (r1, st1)
    \<and> new_from_fd_at fresh2 st1 ref = Some (r2, st2)
    \<and> r1 < length st2 \<and> r2 < length st2 \<and> r1 \<noteq> r2 \<and> r1 \<noteq> ref \<and> r2 \<noteq> ref
    \<and> st2 ! ref = src \<and> st2 ! r1 = d1 \<and> st2 ! r2 = d2
    \<and> d1 = new_from_fd fresh1 src \<and> d2 = new_from_fd fresh2 src
    \<and> FD.filename d1 = FD.filename src \<and> FD.filename d2 = FD.filename src
    \<and> FD.fd d1 = FD.fd src \<and> FD.fd d2 = FD.fd src
    \<and> FD.family d1 = FD.family src \<and> FD.family d2 = FD.family src
    \<and> fdtype d1 = fdtype src \<and> fdtype d2 = fdtype src
    \<and> parent d1 = parent src \<and> parent d2 = parent src
    \<and> FD.cloexec d1 = FD.cloexec src \<and> FD.cloexec d2 = FD.cloexec src
    \<and> net_read d1 = 0 \<and> net_read d2 = 0 \<and> net_write d1 = 0 \<and> net_write d2 = 0
    \<and> disk_read d1 = 0 \<and> disk_read d2 = 0 \<and> disk_write d1 = 0 \<and> disk_write d2 = 0
    \<and> unk_read d1 = 0 \<and> unk_read d2 = 0 \<and> unk_write d1 = 0 \<and> unk_write d2 = 0
    \<and> read d1 = 0 \<and> read d2 = 0 \<and> write' d1 = 0 \<and> write' d2 = 0
    \<and> iorequests d1 = [] \<and> iorequests d2 = []
    \<and> (\<forall>obj. st2[r1 := obj] ! r2 = d2 \<and> st2[r1 := obj] ! ref = src)
    \<and> (\<forall>obj. st2[r2 := obj] ! r1 = d1 \<and> st2[r2 := obj] ! ref = src)"
proof -
  let ?d1 = "new_from_fd fresh1 src"
  let ?d2 = "new_from_fd fresh2 src"
  let ?st1 = "store @ [?d1]"
  let ?st2 = "?st1 @ [?d2]"
  have a1: "new_from_fd_at fresh1 store ref = Some (length store, ?st1)"
    using assms by (simp add: new_from_fd_at_valid)
  have a2: "new_from_fd_at fresh2 ?st1 ref = Some (Suc (length store), ?st2)"
    using assms by (simp add: new_from_fd_at_valid nth_append)
  have nth: "?st2 ! ref = src" "?st2 ! length store = ?d1" "?st2 ! Suc (length store) = ?d2"
    using assms by (simp_all add: nth_append)
  have upd: "\<forall>obj. ?st2[length store := obj] ! Suc (length store) = ?d2
                 \<and> ?st2[length store := obj] ! ref = src"
        "\<forall>obj. ?st2[Suc (length store) := obj] ! length store = ?d1
                 \<and> ?st2[Suc (length store) := obj] ! ref = src"
    using assms by (simp_all add: nth_append nth_list_update)
  show ?thesis
    apply (rule exI [of _ "length store"], rule exI [of _ ?st1])
    apply (rule exI [of _ "Suc (length store)"], rule exI [of _ ?st2])
    apply (rule exI [of _ ?d1], rule exI [of _ ?d2])
    using assms a1 a2 nth upd new_from_fd_fields [of fresh1 src] new_from_fd_fields [of fresh2 src]
    by simp
qed

theorem new_from_fd_duplicates_witness:
  "\<exists>r1 st1 r2 st2.
      new_from_fd_at
        \<lparr>FD.filename = ''x'', FD.fd = Some 99, FD.family = 7, fdtype = net, parent = Some 1,
          FD.cloexec = True, net_read = 11, net_write = 12, disk_read = 13, disk_write = 14,
          unk_read = 15, unk_write = 16, read = 17, write' = 18, iorequests = [()]\<rparr>
        [\<lparr>FD.filename = ''/tmp/a'', FD.fd = Some 3, FD.family = 0, fdtype = disk,
           parent = None, FD.cloexec = False, net_read = 0, net_write = 0, disk_read = 100,
           disk_write = 0, unk_read = 0, unk_write = 0, read = 100, write' = 0,
           iorequests = [(), ()]\<rparr>] 0 = Some (r1, st1)
      \<and> new_from_fd_at
        \<lparr>FD.filename = ''y'', FD.fd = Some 98, FD.family = 8, fdtype = maybe_net,
          parent = Some 2, FD.cloexec = True, net_read = 21, net_write = 22, disk_read = 23,
          disk_write = 24, unk_read = 25, unk_write = 26, read = 27, write' = 28,
          iorequests = [()]\<rparr> st1 0 = Some (r2, st2)
      \<and> r1 = 1 \<and> r2 = 2
      \<and> FD.filename (st2 ! r1) = ''/tmp/a'' \<and> FD.filename (st2 ! r2) = ''/tmp/a''
      \<and> FD.fd (st2 ! r1) = Some 3 \<and> FD.fd (st2 ! r2) = Some 3
      \<and> fdtype (st2 ! r1) = disk \<and> fdtype (st2 ! r2) = disk
      \<and> read (st2 ! r1) = 0 \<and> read (st2 ! r2) = 0 \<and> read (st2 ! 0) = 100
      \<and> disk_read (st2 ! r1) = 0 \<and> disk_read (st2 ! r2) = 0 \<and> disk_read (st2 ! 0) = 100
      \<and> iorequests (st2 ! r1) = [] \<and> iorequests (st2 ! r2) = []
      \<and> iorequests (st2 ! 0) = [(), ()]"
  using new_from_fd_duplicates [of 0
      "[\<lparr>FD.filename = ''/tmp/a'', FD.fd = Some 3, FD.family = 0, fdtype = disk,
           parent = None, FD.cloexec = False, net_read = 0, net_write = 0, disk_read = 100,
           disk_write = 0, unk_read = 0, unk_write = 0, read = 100, write' = 0,
           iorequests = [(), ()]\<rparr>]"
      "\<lparr>FD.filename = ''/tmp/a'', FD.fd = Some 3, FD.family = 0, fdtype = disk,
           parent = None, FD.cloexec = False, net_read = 0, net_write = 0, disk_read = 100,
           disk_write = 0, unk_read = 0, unk_write = 0, read = 100, write' = 0,
           iorequests = [(), ()]\<rparr>"
      "\<lparr>FD.filename = ''x'', FD.fd = Some 99, FD.family = 7, fdtype = net, parent = Some 1,
          FD.cloexec = True, net_read = 11, net_write = 12, disk_read = 13, disk_write = 14,
          unk_read = 15, unk_write = 16, read = 17, write' = 18, iorequests = [()]\<rparr>"
      "\<lparr>FD.filename = ''y'', FD.fd = Some 98, FD.family = 8, fdtype = maybe_net,
          parent = Some 2, FD.cloexec = True, net_read = 21, net_write = 22, disk_read = 23,
          disk_write = 24, unk_read = 25, unk_write = 26, read = 27, write' = 28,
          iorequests = [()]\<rparr>"]
  by (simp add: new_from_fd_at_def FD_alloc_def new_from_fd_def FD_init_def init_counts_def)

subsection \<open>Softirq raise followed by entry\<close>

text \<open>
  Claim C9. On a CPU with nothing pending on a vector, a softirq raise event on the vector
  followed by a softirq entry event on the same vector leaves a single pending record for
  the vector, carrying the raise event's timestamp as \<open>raise_ts\<close> and the entry event's as
  \<open>begin_ts\<close>. The witness is the scenario of the claim: vector 3, raise at 100, entry at
  150.
\<close>

theorem softirq_raise_then_entry:
  assumes "pending_softirqs cpu vec = []"
    and "int_fields rs ''vec'' = Some vec" and "int_fields rs ''cpu_id'' = Some c"
    and "int_fields en ''vec'' = Some vec"
  shows "\<exists>cpu1 cpu2 irq. process_softirq_raise cpu rs = Inr cpu1
           \<and> process_softirq_entry cpu1 en = Inr cpu2
           \<and> pending_softirqs cpu2 vec = [irq]
           \<and> id' irq = vec \<and> raise_ts irq = Some (timestamp rs)
           \<and> IRQ.begin_ts irq = Some (timestamp en)"
  using assms
  by (simp add: process_softirq_raise_def process_softirq_entry_def new_from_softirq_raise_def
      pending_softirqs_def getitem_Some and_then_Inr init_defs record_defs)

theorem softirq_raise_then_entry_witness:
  "\<exists>cpu1 cpu2 irq. process_softirq_raise (CPU_init 0)
        \<lparr>timestamp = 100, name = ''irq_softirq_raise'',
          int_fields = [''vec'' \<mapsto> 3, ''cpu_id'' \<mapsto> 0], str_fields = Map.empty\<rparr> = Inr cpu1
      \<and> process_softirq_entry cpu1
        \<lparr>timestamp = 150, name = ''irq_softirq_entry'',
          int_fields = [''vec'' \<mapsto> 3, ''cpu_id'' \<mapsto> 0], str_fields = Map.empty\<rparr> = Inr cpu2
      \<and> pending_softirqs cpu2 3 = [irq] \<and> length (pending_softirqs cpu2 3) = 1
      \<and> raise_ts irq = Some 100 \<and> IRQ.begin_ts irq = Some 150"
  using softirq_raise_then_entry [of "CPU_init 0" 3
      "\<lparr>timestamp = 100, name = ''irq_softirq_raise'',
        int_fields = [''vec'' \<mapsto> 3, ''cpu_id'' \<mapsto> 0], str_fields = Map.empty\<rparr>" 0
      "\<lparr>timestamp = 150, name = ''irq_softirq_entry'',
        int_fields = [''vec'' \<mapsto> 3, ''cpu_id'' \<mapsto> 0], str_fields = Map.empty\<rparr>"]
  by (auto simp add: CPU_init_def pending_softirqs_def)

end
